theory Spec2Isabelle
  imports Complex_Main "HOL-Library.Product_Lexorder" "HOL-Library.Multiset"
begin

section \<open>Dates and errors\<close>

text \<open>
  A calendar date is the triple (year, month, day); the lexicographic order on triples is
  the chronological order. The values of \<^verbatim>\<open>Date\<close> columns are dates. The window
  bounds built by \<^verbatim>\<open>datetime(year, month, 1)\<close> are datetimes at midnight, given by
  their date.
\<close>

type_synonym date = "int \<times> int \<times> int"

datatype error = ValueError | IndexError | AttributeError

definition is_leap :: "int \<Rightarrow> bool" where
  "is_leap y = (if y mod 4 = 0 then (if y mod 100 = 0 then y mod 400 = 0 else True) else False)"

definition days_in_month :: "int \<Rightarrow> int \<Rightarrow> int" where
  "days_in_month y m =
     (if m = 2 then (if is_leap y then 29 else 28)
      else if m = 4 \<or> m = 6 \<or> m = 9 \<or> m = 11 then 30 else 31)"

text \<open>
  The constructor \<^verbatim>\<open>datetime(year, month, day)\<close>: it raises ValueError unless
  MINYEAR = 1 \<le> year \<le> 9999 = MAXYEAR, 1 \<le> month \<le> 12 and the day exists in the month.
\<close>

definition datetime :: "int \<Rightarrow> int \<Rightarrow> int \<Rightarrow> error + date" where
  "datetime y m d =
     (if 1 \<le> y \<and> y \<le> 9999 \<and> 1 \<le> m \<and> m \<le> 12 \<and> 1 \<le> d \<and> d \<le> days_in_month y m
      then Inr (y, m, d) else Inl ValueError)"

text \<open>
  The block that every monthly function of \<^verbatim>\<open>query_data.py\<close> but the printing one
  starts with:
  \<^verbatim>\<open>
    start_date = datetime(year, month, 1)
    if month == 12:
        end_date = datetime(year + 1, 1, 1)
    else:
        end_date = datetime(year, month + 1, 1)
  \<close>
\<close>

definition month_window :: "int \<Rightarrow> int \<Rightarrow> error + (date \<times> date)" where
  "month_window year month =
     (case datetime year month 1 of
        Inl e \<Rightarrow> Inl e
      | Inr start_date \<Rightarrow>
          (case (if month = 12 then datetime (year + 1) 1 1 else datetime year (month + 1) 1) of
             Inl e \<Rightarrow> Inl e
           | Inr end_date \<Rightarrow> Inr (start_date, end_date)))"

text \<open>
  How a \<^verbatim>\<open>Date\<close> column is compared with a datetime bound. SQLite stores the column
  as the text \<^verbatim>\<open>YYYY-MM-DD\<close>. The bound is a Python datetime, so the comparison
  sends it as a datetime, the text \<^verbatim>\<open>YYYY-MM-DD 00:00:00.000000\<close>, and SQLite
  compares the two texts character by character. With years of four digits the first
  ten characters compare as the dates do; when they agree the stored text is a proper
  prefix of the bound and so strictly below it. A text is therefore given by its date
  and by whether the time part follows (0 without it, 1 with it), ordered
  lexicographically.
\<close>

type_synonym sql_text = "date \<times> nat"

definition date_text :: "date \<Rightarrow> sql_text" where
  "date_text d = (d, 0)"

definition datetime_text :: "date \<Rightarrow> sql_text" where
  "datetime_text d = (d, 1)"

text \<open>The filter \<^verbatim>\<open>and_(col >= start_date, col < end_date)\<close> on a \<^verbatim>\<open>Date\<close> column.\<close>

definition in_window :: "date \<Rightarrow> date \<Rightarrow> date \<Rightarrow> bool" where
  "in_window start_date end_date d =
     (datetime_text start_date \<le> date_text d \<and> date_text d < datetime_text end_date)"

section \<open>The schema of \<^verbatim>\<open>create.py\<close>\<close>

text \<open>
  One record per mapped class, one field per column. \<^verbatim>\<open>Float\<close> columns are
  modelled as reals (exact arithmetic), \<^verbatim>\<open>Integer\<close> columns as unbounded integers.
  A table is the list of its rows in insertion order.
\<close>

record office =
  o_id :: int
  o_address :: string

record agent =
  a_id :: int
  a_name :: string
  a_email :: string
  a_phone :: string

record agent_office =
  ao_id :: int
  ao_agent_id :: int
  ao_office_id :: int

record seller =
  s_id :: int
  s_name :: string
  s_phone :: string

record listing =
  l_id :: int
  l_seller_id :: int
  l_bedrooms :: int
  l_bathrooms :: int
  l_listing_price :: real
  l_zip_code :: string
  l_date_of_listing :: date
  l_listing_agent_id :: int
  l_office_id :: int
  l_is_sold :: int

record buyer =
  b_id :: int
  b_name :: string
  b_phone :: string

record sale =
  sl_id :: int
  sl_buyer_id :: int
  sl_sale_price :: real
  sl_date_of_sale :: date
  sl_selling_agent_id :: int
  sl_office_id :: int
  sl_listing_id :: int

record commission =
  c_id :: int
  c_agent_id :: int
  c_sale_id :: int
  c_amount :: real
  c_date_of_commission :: date

record monthly_commission =
  mc_id :: int
  mc_agent_id :: int
  mc_date :: date
  mc_amount :: real

record db =
  offices :: "office list"
  agents :: "agent list"
  agent_office_tbl :: "agent_office list"
  sellers :: "seller list"
  listings :: "listing list"
  buyers :: "buyer list"
  sales :: "sale list"
  commissions :: "commission list"
  month_commissions :: "monthly_commission list"

section \<open>The SQL the queries rely on\<close>

text \<open>
  The value SQLite gives an \<^verbatim>\<open>INTEGER PRIMARY KEY\<close> column on insert: 1 in an empty
  table, otherwise the largest key plus one.
\<close>

definition next_id :: "int list \<Rightarrow> int" where
  "next_id ids = (if ids = [] then 1 else Max (set ids) + 1)"

text \<open>
  \<^verbatim>\<open>session.query(T).order_by(T.id.desc()).first()\<close> followed by \<^verbatim>\<open>.id\<close>: the largest
  key, and no row (Python's None) in an empty table.
\<close>

definition last_id :: "int list \<Rightarrow> int option" where
  "last_id ids = (if ids = [] then None else Some (Max (set ids)))"

text \<open>\<^verbatim>\<open>.filter(...).first()\<close>: the first matching row, if any.\<close>

definition first_row :: "('r \<Rightarrow> bool) \<Rightarrow> 'r list \<Rightarrow> 'r option" where
  "first_row p rows = (case filter p rows of [] \<Rightarrow> None | r # _ \<Rightarrow> Some r)"

text \<open>\<^verbatim>\<open>.limit(n)\<close>: SQLite reads a negative limit as no limit.\<close>

definition limit :: "int \<Rightarrow> 'r list \<Rightarrow> 'r list" where
  "limit n rows = (if n < 0 then rows else take (nat n) rows)"

text \<open>An inner join: the pairs of rows that satisfy the join condition.\<close>

definition join_on :: "('a \<Rightarrow> 'b \<Rightarrow> bool) \<Rightarrow> 'a list \<Rightarrow> 'b list \<Rightarrow> ('a \<times> 'b) list" where
  "join_on on xs ys = concat (map (\<lambda>x. map (Pair x) (filter (on x) ys)) xs)"

text \<open>\<^verbatim>\<open>GROUP BY\<close>: one group per distinct key, holding the rows with that key.\<close>

definition group_by :: "('r \<Rightarrow> 'k) \<Rightarrow> 'r list \<Rightarrow> ('k \<times> 'r list) list" where
  "group_by key rows = map (\<lambda>k. (k, filter (\<lambda>r. key r = k) rows)) (remdups (map key rows))"

text \<open>
  \<^verbatim>\<open>ORDER BY key DESC\<close>: SQL fixes the order of rows with different keys only; the
  order of rows with equal keys is the choice of SQLite's sorter. The queries take the
  sorter as a parameter \<open>order_by\<close>; \<open>sorter_ok\<close> says what SQL promises of it: it
  returns the rows it is given, the larger key first.
\<close>

definition sorter_ok :: "(('r \<Rightarrow> 'k::linorder) \<Rightarrow> 'r list \<Rightarrow> 'r list) \<Rightarrow> bool" where
  "sorter_ok order_by =
     (\<forall>f xs. mset (order_by f xs) = mset xs \<and>
             sorted_wrt (\<lambda>a b. f b \<le> f a) (order_by f xs))"

text \<open>One such sorter: rows with equal keys come out in the reverse of their order.\<close>

definition sort_desc :: "('r \<Rightarrow> 'k::linorder) \<Rightarrow> 'r list \<Rightarrow> 'r list" where
  "sort_desc f xs = rev (sort_key f xs)"

text \<open>\<^verbatim>\<open>func.avg\<close>: NULL (None) over no rows, the mean otherwise.\<close>

definition sql_avg :: "real list \<Rightarrow> real option" where
  "sql_avg xs = (if xs = [] then None else Some (sum_list xs / real (length xs)))"

section \<open>Seeding and sale recording (\<^verbatim>\<open>insert_data.py\<close>)\<close>

text \<open>
  The values drawn from \<^verbatim>\<open>faker\<close> and \<^verbatim>\<open>random\<close> are inputs of the model: each
  field gives the value of a draw by its number. \<^verbatim>\<open>fake_date_between\<close> is the call
  \<^verbatim>\<open>fake.date_between(start_date=..., end_date='today')\<close> of sale recording, which
  may raise; \<^verbatim>\<open>fake_date_of_listing\<close> is \<^verbatim>\<open>fake.date_between('-3y', 'today')\<close>.
\<close>

record faker =
  fake_address :: "nat \<Rightarrow> string"
  fake_name :: "nat \<Rightarrow> string"
  fake_email :: "nat \<Rightarrow> string"
  fake_phone_number :: "nat \<Rightarrow> string"
  fake_zipcode :: "nat \<Rightarrow> string"
  fake_random_number :: "nat \<Rightarrow> real"
  fake_date_of_listing :: "nat \<Rightarrow> date"
  fake_date_between :: "nat \<Rightarrow> date \<Rightarrow> error + date"
  randint :: "nat \<Rightarrow> int \<Rightarrow> int \<Rightarrow> int"
  randbelow :: "nat \<Rightarrow> nat \<Rightarrow> nat"

text \<open>\<^verbatim>\<open>random.choice\<close>: IndexError on an empty sequence.\<close>

definition choice :: "faker \<Rightarrow> nat \<Rightarrow> 'a list \<Rightarrow> error + 'a" where
  "choice fk i xs =
     (if xs = [] then Inl IndexError else Inr (xs ! (randbelow fk i (length xs) mod length xs)))"

fun insert_offices_loop :: "faker \<Rightarrow> nat list \<Rightarrow> db \<Rightarrow> db" where
  "insert_offices_loop fk [] session = session"
| "insert_offices_loop fk (i # rest) session =
     insert_offices_loop fk rest
       (session\<lparr>offices := offices session @
          [\<lparr>o_id = next_id (map o_id (offices session)), o_address = fake_address fk i\<rparr>]\<rparr>)"

definition insert_offices :: "faker \<Rightarrow> int \<Rightarrow> db \<Rightarrow> db" where
  "insert_offices fk num_offices session =
     insert_offices_loop fk [0..<nat num_offices] session"

fun insert_agents_loop :: "faker \<Rightarrow> nat list \<Rightarrow> db \<Rightarrow> error + db" where
  "insert_agents_loop fk [] session = Inr session"
| "insert_agents_loop fk (i # rest) session =
     (let agent = \<lparr>a_id = next_id (map a_id (agents session)), a_name = fake_name fk i,
                    a_email = fake_email fk i, a_phone = fake_phone_number fk i\<rparr>;
          s1 = session\<lparr>agents := agents session @ [agent]\<rparr>
      in case last_id (map a_id (agents s1)) of
           None \<Rightarrow> Inl AttributeError
         | Some agent_id \<Rightarrow>
             (case choice fk i (offices s1) of
                Inl e \<Rightarrow> Inl e
              | Inr office \<Rightarrow>
                  insert_agents_loop fk rest
                    (s1\<lparr>agent_office_tbl := agent_office_tbl s1 @
                       [\<lparr>ao_id = next_id (map ao_id (agent_office_tbl s1)),
                         ao_agent_id = agent_id, ao_office_id = o_id office\<rparr>]\<rparr>)))"

text \<open>
  Every seeding function wraps its loop in \<^verbatim>\<open>try ... except\<close>: an exception rolls the
  session back to the last commit and is printed, and the function returns.
\<close>

definition insert_agents :: "faker \<Rightarrow> int \<Rightarrow> db \<Rightarrow> db" where
  "insert_agents fk num_agents session =
     (case insert_agents_loop fk [0..<nat num_agents] session of
        Inl e \<Rightarrow> session
      | Inr s' \<Rightarrow> s')"

fun assign_loop :: "faker \<Rightarrow> office list \<Rightarrow> agent list \<Rightarrow> nat list \<Rightarrow> db \<Rightarrow> error + db" where
  "assign_loop fk offices_all agents_all [] session = Inr session"
| "assign_loop fk offices_all agents_all (i # rest) session =
     (case choice fk (2 * i) agents_all of
        Inl e \<Rightarrow> Inl e
      | Inr agent \<Rightarrow>
          (case choice fk (2 * i + 1) offices_all of
             Inl e \<Rightarrow> Inl e
           | Inr office \<Rightarrow>
               assign_loop fk offices_all agents_all rest
                 (session\<lparr>agent_office_tbl := agent_office_tbl session @
                    [\<lparr>ao_id = next_id (map ao_id (agent_office_tbl session)),
                      ao_agent_id = a_id agent, ao_office_id = o_id office\<rparr>]\<rparr>)))"

definition assign_agents_to_offices :: "faker \<Rightarrow> int \<Rightarrow> db \<Rightarrow> db" where
  "assign_agents_to_offices fk num_assignments session =
     (case assign_loop fk (offices session) (agents session) [0..<nat num_assignments] session of
        Inl e \<Rightarrow> session
      | Inr s' \<Rightarrow> s')"

fun add_all_sellers :: "faker \<Rightarrow> nat list \<Rightarrow> db \<Rightarrow> db" where
  "add_all_sellers fk [] session = session"
| "add_all_sellers fk (i # rest) session =
     add_all_sellers fk rest
       (session\<lparr>sellers := sellers session @
          [\<lparr>s_id = next_id (map s_id (sellers session)), s_name = fake_name fk i,
            s_phone = fake_phone_number fk i\<rparr>]\<rparr>)"

fun insert_listings_loop ::
    "faker \<Rightarrow> agent list \<Rightarrow> seller list \<Rightarrow> nat list \<Rightarrow> db \<Rightarrow> error + db" where
  "insert_listings_loop fk agents_all sellers_new [] session = Inr session"
| "insert_listings_loop fk agents_all sellers_new (idx # rest) session =
     (case choice fk idx agents_all of
        Inl e \<Rightarrow> Inl e
      | Inr listing_agent \<Rightarrow>
          (case first_row (\<lambda>ao. ao_agent_id ao = a_id listing_agent) (agent_office_tbl session) of
             None \<Rightarrow> Inl AttributeError
           | Some ao \<Rightarrow>
               (if length sellers_new \<le> idx then Inl IndexError
                else
                  insert_listings_loop fk agents_all sellers_new rest
                    (session\<lparr>listings := listings session @
                       [\<lparr>l_id = next_id (map l_id (listings session)),
                         l_seller_id = s_id (sellers_new ! idx),
                         l_bedrooms = randint fk (2 * idx) 1 5,
                         l_bathrooms = randint fk (2 * idx + 1) 1 4,
                         l_listing_price = fake_random_number fk idx,
                         l_zip_code = fake_zipcode fk idx,
                         l_date_of_listing = fake_date_of_listing fk idx,
                         l_listing_agent_id = a_id listing_agent,
                         l_office_id = ao_office_id ao,
                         l_is_sold = 0\<rparr>]\<rparr>))))"

definition insert_listings :: "faker \<Rightarrow> int \<Rightarrow> db \<Rightarrow> db" where
  "insert_listings fk num_listings session =
     (let agents_all = agents session;
          s1 = add_all_sellers fk [0..<nat num_listings] session;
          sellers_new = drop (length (sellers session)) (sellers s1)
      in case insert_listings_loop fk agents_all sellers_new [0..<nat num_listings] s1 of
           Inl e \<Rightarrow> s1
         | Inr s2 \<Rightarrow> s2)"

fun add_all_buyers :: "faker \<Rightarrow> nat list \<Rightarrow> db \<Rightarrow> db" where
  "add_all_buyers fk [] session = session"
| "add_all_buyers fk (i # rest) session =
     add_all_buyers fk rest
       (session\<lparr>buyers := buyers session @
          [\<lparr>b_id = next_id (map b_id (buyers session)), b_name = fake_name fk i,
            b_phone = fake_phone_number fk i\<rparr>]\<rparr>)"

definition get_commission_rate :: "real \<Rightarrow> real" where
  "get_commission_rate sale_price =
     (if sale_price < 100000 then 0.10
      else if sale_price < 200000 then 0.075
      else if sale_price < 500000 then 0.06
      else if sale_price < 1000000 then 0.05
      else 0.04)"

text \<open>
  The loop of \<^verbatim>\<open>insert_sales\<close> over \<^verbatim>\<open>enumerate(listings)\<close>. Each query inside the
  loop flushes the pending rows first, so the new sale is in the table when its key is
  read back, and the listing's flag is updated by primary key.
\<close>

fun sales_loop :: "faker \<Rightarrow> buyer list \<Rightarrow> nat \<Rightarrow> listing list \<Rightarrow> db \<Rightarrow> error + db" where
  "sales_loop fk buyers_new idx [] session = Inr session"
| "sales_loop fk buyers_new idx (listing # rest) session =
     (if length buyers_new \<le> idx then Inl IndexError
      else
        (case fake_date_between fk idx (l_date_of_listing listing) of
           Inl e \<Rightarrow> Inl e
         | Inr d \<Rightarrow>
             (let selling_agent_id = l_listing_agent_id listing;
                  office_id = l_office_id listing;
                  sale = \<lparr>sl_id = next_id (map sl_id (sales session)),
                           sl_buyer_id = b_id (buyers_new ! idx),
                           sl_sale_price = l_listing_price listing,
                           sl_date_of_sale = d,
                           sl_selling_agent_id = selling_agent_id,
                           sl_office_id = office_id,
                           sl_listing_id = l_id listing\<rparr>;
                  s1 = session\<lparr>sales := sales session @ [sale]\<rparr>
              in case last_id (map sl_id (sales s1)) of
                   None \<Rightarrow> Inl AttributeError
                 | Some sale_id \<Rightarrow>
                     (let s2 = s1\<lparr>listings :=
                                 map (\<lambda>l. if l_id l = l_id listing then l\<lparr>l_is_sold := 1\<rparr> else l)
                                   (listings s1)\<rparr>;
                          commision_rate = get_commission_rate (sl_sale_price sale);
                          commision_amount = sl_sale_price sale * commision_rate;
                          commision = \<lparr>c_id = next_id (map c_id (commissions s2)),
                                        c_agent_id = selling_agent_id,
                                        c_sale_id = sale_id,
                                        c_amount = commision_amount,
                                        c_date_of_commission = sl_date_of_sale sale\<rparr>
                      in sales_loop fk buyers_new (Suc idx) rest
                           (s2\<lparr>commissions := commissions s2 @ [commision]\<rparr>)))))"

text \<open>
  \<^verbatim>\<open>insert_sales\<close> commits the buyers first, reads the unsold listings, and runs the
  loop in a second \<^verbatim>\<open>try\<close>. The result is the exception printed, if any, and the
  stored state: after an exception, the state of the last commit (the buyers are kept).
\<close>

definition insert_sales :: "faker \<Rightarrow> int \<Rightarrow> db \<Rightarrow> error option \<times> db" where
  "insert_sales fk num_sales session =
     (let s1 = add_all_buyers fk [0..<nat num_sales] session;
          buyers_new = drop (length (buyers session)) (buyers s1);
          listings_unsold = limit num_sales (filter (\<lambda>l. l_is_sold l = 0) (listings s1))
      in case sales_loop fk buyers_new 0 listings_unsold s1 of
           Inl e \<Rightarrow> (Some e, s1)
         | Inr s2 \<Rightarrow> (None, s2))"

section \<open>Monthly rollup and reports (\<^verbatim>\<open>query_data.py\<close>)\<close>

text \<open>
  \<^verbatim>\<open>print_monthly_commission_table\<close> builds its start date from \<^verbatim>\<open>month-1\<close>. The
  model returns the rows handed to \<^verbatim>\<open>tabulate\<close>, or the exception raised.
\<close>

definition print_monthly_commission_table ::
    "int \<Rightarrow> int \<Rightarrow> db \<Rightarrow> error + (int \<times> real) list" where
  "print_monthly_commission_table year month session =
     (case datetime year (month - 1) 1 of
        Inl e \<Rightarrow> Inl e
      | Inr start_date \<Rightarrow>
          (case (if month = 12 then datetime (year + 1) 1 1 else datetime year (month + 1) 1) of
             Inl e \<Rightarrow> Inl e
           | Inr end_date \<Rightarrow>
               Inr (map (\<lambda>mc. (mc_agent_id mc, mc_amount mc))
                     (filter (\<lambda>mc. in_window start_date end_date (mc_date mc))
                        (month_commissions session)))))"

text \<open>
  The aggregate query of \<^verbatim>\<open>get_total_commission\<close>: agents joined with their
  commissions of the window, grouped by agent, summed, the largest sum first.
\<close>

definition agents_commission ::
    "((int \<times> real \<Rightarrow> real) \<Rightarrow> (int \<times> real) list \<Rightarrow> (int \<times> real) list) \<Rightarrow>
     date \<Rightarrow> date \<Rightarrow> db \<Rightarrow> (int \<times> real) list" where
  "agents_commission order_by start_date end_date session =
     order_by (\<lambda>(k, total_commission). total_commission)
       (map (\<lambda>(k, rows). (k, sum_list (map (\<lambda>(a, c). c_amount c) rows)))
          (group_by (\<lambda>(a, c). a_id a)
             (filter (\<lambda>(a, c). in_window start_date end_date (c_date_of_commission c))
                (join_on (\<lambda>a c. c_agent_id c = a_id a) (agents session) (commissions session)))))"

text \<open>
  The loop over the query's rows. The existence check reads the table with the rows
  this loop has added so far (the query flushes them); its filter
  \<^verbatim>\<open>MonthlyCommission.date == end_date\<close> compares the stored text of the \<^verbatim>\<open>Date\<close>
  column with the text of the datetime \<^verbatim>\<open>end_date\<close>. The new row's date column takes
  the date of \<^verbatim>\<open>end_date\<close>.
\<close>

fun add_monthly_commissions :: "date \<Rightarrow> (int \<times> real) list \<Rightarrow> db \<Rightarrow> db" where
  "add_monthly_commissions end_date [] session = session"
| "add_monthly_commissions end_date (agent_commission # rest) session =
     (if length (filter (\<lambda>mc. mc_agent_id mc = fst agent_commission \<and>
                              date_text (mc_date mc) = datetime_text end_date)
                   (month_commissions session)) > 0
      then add_monthly_commissions end_date rest session
      else add_monthly_commissions end_date rest
             (session\<lparr>month_commissions := month_commissions session @
                [\<lparr>mc_id = next_id (map mc_id (month_commissions session)),
                  mc_agent_id = fst agent_commission,
                  mc_date = end_date,
                  mc_amount = snd agent_commission\<rparr>]\<rparr>))"

definition get_total_commission ::
    "((int \<times> real \<Rightarrow> real) \<Rightarrow> (int \<times> real) list \<Rightarrow> (int \<times> real) list) \<Rightarrow>
     int \<Rightarrow> int \<Rightarrow> db \<Rightarrow> error + db" where
  "get_total_commission order_by year month session =
     (case month_window year month of
        Inl e \<Rightarrow> Inl e
      | Inr (start_date, end_date) \<Rightarrow>
          Inr (add_monthly_commissions end_date
                 (agents_commission order_by start_date end_date session) session))"

text \<open>
  \<^verbatim>\<open>top_agents_by_sales_monthly\<close>: the columns of an agent are read from a row of its
  group (all rows of a group hold the same agent when agent keys are unique; a group is
  never empty).
\<close>

type_synonym agent_row = "int \<times> string \<times> string \<times> string \<times> int"

definition top_agents_by_sales_monthly ::
    "((agent_row \<Rightarrow> int) \<Rightarrow> agent_row list \<Rightarrow> agent_row list) \<Rightarrow>
     int \<Rightarrow> int \<Rightarrow> db \<Rightarrow> error + agent_row list" where
  "top_agents_by_sales_monthly order_by year month session =
     (case month_window year month of
        Inl e \<Rightarrow> Inl e
      | Inr (start_date, end_date) \<Rightarrow>
          Inr (limit 5
                (order_by (\<lambda>(k, n, e, p, sales_count). sales_count)
                   (map (\<lambda>(k, rows). (k, a_name (fst (hd rows)), a_email (fst (hd rows)),
                                        a_phone (fst (hd rows)), int (length rows)))
                      (group_by (\<lambda>(a, x). a_id a)
                         (filter (\<lambda>(a, x). in_window start_date end_date (sl_date_of_sale x))
                            (join_on (\<lambda>a x. sl_selling_agent_id x = a_id a)
                               (agents session) (sales session))))))))"

text \<open>
  \<^verbatim>\<open>average_days_on_market_monthly\<close>: SQLite's \<^verbatim>\<open>julianday\<close> is a parameter of the
  model.
\<close>

definition average_days_on_market_monthly ::
    "(date \<Rightarrow> real) \<Rightarrow> int \<Rightarrow> int \<Rightarrow> db \<Rightarrow> error + real option" where
  "average_days_on_market_monthly julianday year month session =
     (case month_window year month of
        Inl e \<Rightarrow> Inl e
      | Inr (start_date, end_date) \<Rightarrow>
          Inr (sql_avg
                (map (\<lambda>(x, l). julianday (sl_date_of_sale x) - julianday (l_date_of_listing l))
                   (filter (\<lambda>(x, l). in_window start_date end_date (sl_date_of_sale x))
                      (join_on (\<lambda>x l. l_id l = sl_listing_id x)
                         (sales session) (listings session))))))"

definition average_selling_price_monthly :: "int \<Rightarrow> int \<Rightarrow> db \<Rightarrow> error + real option" where
  "average_selling_price_monthly year month session =
     (case month_window year month of
        Inl e \<Rightarrow> Inl e
      | Inr (start_date, end_date) \<Rightarrow>
          Inr (sql_avg
                (map sl_sale_price
                   (filter (\<lambda>x. in_window start_date end_date (sl_date_of_sale x))
                      (sales session)))))"

section \<open>Program states and steps\<close>

text \<open>The database right after \<^verbatim>\<open>create.py\<close> has created the tables.\<close>

definition empty_db :: db where
  "empty_db = \<lparr>offices = [], agents = [], agent_office_tbl = [], sellers = [], listings = [],
     buyers = [], sales = [], commissions = [], month_commissions = []\<rparr>"

text \<open>
  One call of a function that writes to the database. The report queries only read.
  A rollup that raises (an invalid year or month) stores nothing and is no step; the
  rollup runs with any sorter that orders as SQL promises.
\<close>

inductive step :: "db \<Rightarrow> db \<Rightarrow> bool" where
  step_offices: "step s (insert_offices fk n s)"
| step_agents: "step s (insert_agents fk n s)"
| step_assign: "step s (assign_agents_to_offices fk n s)"
| step_listings: "step s (insert_listings fk n s)"
| step_sales: "insert_sales fk n s = (out, s') \<Longrightarrow> step s s'"
| step_rollup: "sorter_ok order_by \<Longrightarrow>
     get_total_commission order_by year month s = Inr s' \<Longrightarrow> step s s'"

definition reachable :: "db \<Rightarrow> bool" where
  "reachable s = step\<^sup>*\<^sup>* empty_db s"

section \<open>Notions used to state the properties\<close>

text \<open>At most one monthly row per agent and date.\<close>

definition mc_unique :: "monthly_commission list \<Rightarrow> bool" where
  "mc_unique mcs = distinct (map (\<lambda>mc. (mc_agent_id mc, mc_date mc)) mcs)"

text \<open>The rows a call has appended to a table, given the states before and after.\<close>

definition new_sales :: "db \<Rightarrow> db \<Rightarrow> sale list" where
  "new_sales s s' = drop (length (sales s)) (sales s')"

definition new_commissions :: "db \<Rightarrow> db \<Rightarrow> commission list" where
  "new_commissions s s' = drop (length (commissions s)) (commissions s')"

text \<open>The update of the sold flag, for the listings whose key is in the set.\<close>

definition mark_sold :: "int set \<Rightarrow> listing \<Rightarrow> listing" where
  "mark_sold ids l = (if l_id l \<in> ids then l\<lparr>l_is_sold := 1\<rparr> else l)"

text \<open>The commission a sale should get, and the fields of a stored commission.\<close>

definition sale_commission :: "sale \<Rightarrow> int \<times> int \<times> real \<times> date" where
  "sale_commission x =
     (sl_selling_agent_id x, sl_id x,
      sl_sale_price x * get_commission_rate (sl_sale_price x), sl_date_of_sale x)"

definition commission_fields :: "commission \<Rightarrow> int \<times> int \<times> real \<times> date" where
  "commission_fields c = (c_agent_id c, c_sale_id c, c_amount c, c_date_of_commission c)"

section \<open>Example data\<close>

definition fk0 :: faker where
  "fk0 = \<lparr>fake_address = (\<lambda>i. ''1 Main Street''), fake_name = (\<lambda>i. ''N''),
          fake_email = (\<lambda>i. ''n@example.org''), fake_phone_number = (\<lambda>i. ''555''),
          fake_zipcode = (\<lambda>i. ''94110''), fake_random_number = (\<lambda>i. 150000),
          fake_date_of_listing = (\<lambda>i. (2023, 3, 1)),
          fake_date_between = (\<lambda>i d. Inr (2023, 4, 10)),
          randint = (\<lambda>i lo hi. lo), randbelow = (\<lambda>i n. 0)\<rparr>"

definition listing_150k :: listing where
  "listing_150k = \<lparr>l_id = 1, l_seller_id = 1, l_bedrooms = 3, l_bathrooms = 2,
     l_listing_price = 150000, l_zip_code = ''94110'', l_date_of_listing = (2023, 3, 1),
     l_listing_agent_id = 1, l_office_id = 1, l_is_sold = 0\<rparr>"

definition sold_listing :: listing where
  "sold_listing = \<lparr>l_id = 2, l_seller_id = 2, l_bedrooms = 3, l_bathrooms = 2,
     l_listing_price = 90000, l_zip_code = ''94110'', l_date_of_listing = (2023, 1, 1),
     l_listing_agent_id = 1, l_office_id = 1, l_is_sold = 1\<rparr>"

definition listed_db :: db where
  "listed_db = empty_db\<lparr>listings := [listing_150k, sold_listing]\<rparr>"


text \<open>The states after recording one sale with the draws \<open>fk0\<close>.\<close>

definition listed_sold_db :: db where
  "listed_sold_db = empty_db\<lparr>
     listings := [listing_150k\<lparr>l_is_sold := 1\<rparr>, sold_listing],
     buyers := [\<lparr>b_id = 1, b_name = ''N'', b_phone = ''555''\<rparr>],
     sales := [\<lparr>sl_id = 1, sl_buyer_id = 1, sl_sale_price = 150000,
                sl_date_of_sale = (2023, 4, 10), sl_selling_agent_id = 1, sl_office_id = 1,
                sl_listing_id = 1\<rparr>],
     commissions := [\<lparr>c_id = 1, c_agent_id = 1, c_sale_id = 1, c_amount = 11250,
                      c_date_of_commission = (2023, 4, 10)\<rparr>]\<rparr>"


definition agent_a :: agent where
  "agent_a = \<lparr>a_id = 1, a_name = ''A'', a_email = ''a@example.org'', a_phone = ''555-0001''\<rparr>"

definition agent_b :: agent where
  "agent_b = \<lparr>a_id = 2, a_name = ''B'', a_email = ''b@example.org'', a_phone = ''555-0002''\<rparr>"

text \<open>
  Agent A has two commissions in April 2023, agent B one on the first of May, which is
  outside the window [2023-04-01, 2023-05-01) of April.
\<close>

definition april_db :: db where
  "april_db = empty_db\<lparr>agents := [agent_a, agent_b],
     commissions :=
       [\<lparr>c_id = 1, c_agent_id = 1, c_sale_id = 1, c_amount = 11250,
         c_date_of_commission = (2023, 4, 10)\<rparr>,
        \<lparr>c_id = 2, c_agent_id = 1, c_sale_id = 2, c_amount = 8000,
         c_date_of_commission = (2023, 4, 30)\<rparr>,
        \<lparr>c_id = 3, c_agent_id = 2, c_sale_id = 3, c_amount = 500,
         c_date_of_commission = (2023, 5, 1)\<rparr>]\<rparr>"

text \<open>The states after one and after two rollups of April 2023 on \<open>april_db\<close>.\<close>

definition april_once_db :: db where
  "april_once_db = april_db\<lparr>month_commissions :=
     [\<lparr>mc_id = 1, mc_agent_id = 1, mc_date = (2023, 5, 1), mc_amount = 19250\<rparr>,
      \<lparr>mc_id = 2, mc_agent_id = 2, mc_date = (2023, 5, 1), mc_amount = 500\<rparr>]\<rparr>"

definition april_twice_db :: db where
  "april_twice_db = april_db\<lparr>month_commissions :=
     [\<lparr>mc_id = 1, mc_agent_id = 1, mc_date = (2023, 5, 1), mc_amount = 19250\<rparr>,
      \<lparr>mc_id = 2, mc_agent_id = 2, mc_date = (2023, 5, 1), mc_amount = 500\<rparr>,
      \<lparr>mc_id = 3, mc_agent_id = 1, mc_date = (2023, 5, 1), mc_amount = 19250\<rparr>,
      \<lparr>mc_id = 4, mc_agent_id = 2, mc_date = (2023, 5, 1), mc_amount = 500\<rparr>]\<rparr>"

text \<open>Agent A has one commission, dated the first day of April 2023.\<close>

definition first_day_db :: db where
  "first_day_db = empty_db\<lparr>agents := [agent_a],
     commissions :=
       [\<lparr>c_id = 1, c_agent_id = 1, c_sale_id = 1, c_amount = 11250,
         c_date_of_commission = (2023, 4, 1)\<rparr>]\<rparr>"

definition sale_of :: "int \<Rightarrow> int \<Rightarrow> date \<Rightarrow> sale" where
  "sale_of i aid d = \<lparr>sl_id = i, sl_buyer_id = i, sl_sale_price = 150000, sl_date_of_sale = d,
     sl_selling_agent_id = aid, sl_office_id = 1, sl_listing_id = i\<rparr>"

text \<open>
  Agent A has one sale, on the first day of April 2023, agent B one on the first day of
  May 2023.
\<close>

definition boundary_sales_db :: db where
  "boundary_sales_db = empty_db\<lparr>agents := [agent_a, agent_b],
     sales := [sale_of 1 1 (2023, 4, 1), sale_of 2 2 (2023, 5, 1)]\<rparr>"

text \<open>One listing of 2023-03-01, sold on 2023-07-01: no sale is dated in June 2023.\<close>

definition july_first_db :: db where
  "july_first_db = empty_db\<lparr>
     listings := [listing_150k\<lparr>l_is_sold := 1\<rparr>],
     sales := [sale_of 1 1 (2023, 7, 1)]\<rparr>"

text \<open>
  A run of the program from the empty database: one office, one agent, one listing, one
  sale, all with the draws \<open>fk0\<close>; then the rollup of April 2023, once and twice.
\<close>

definition seeded_db :: db where
  "seeded_db =
     snd (insert_sales fk0 1
            (insert_listings fk0 1 (insert_agents fk0 1 (insert_offices fk0 1 empty_db))))"

definition seeded_once_db :: db where
  "seeded_once_db =
     \<lparr>offices = [\<lparr>o_id = 1, o_address = ''1 Main Street''\<rparr>],
      agents = [\<lparr>a_id = 1, a_name = ''N'', a_email = ''n@example.org'', a_phone = ''555''\<rparr>],
      agent_office_tbl = [\<lparr>ao_id = 1, ao_agent_id = 1, ao_office_id = 1\<rparr>],
      sellers = [\<lparr>s_id = 1, s_name = ''N'', s_phone = ''555''\<rparr>],
      listings = [\<lparr>l_id = 1, l_seller_id = 1, l_bedrooms = 1, l_bathrooms = 1,
                   l_listing_price = 150000, l_zip_code = ''94110'',
                   l_date_of_listing = (2023, 3, 1), l_listing_agent_id = 1,
                   l_office_id = 1, l_is_sold = 1\<rparr>],
      buyers = [\<lparr>b_id = 1, b_name = ''N'', b_phone = ''555''\<rparr>],
      sales = [\<lparr>sl_id = 1, sl_buyer_id = 1, sl_sale_price = 150000,
                sl_date_of_sale = (2023, 4, 10), sl_selling_agent_id = 1,
                sl_office_id = 1, sl_listing_id = 1\<rparr>],
      commissions = [\<lparr>c_id = 1, c_agent_id = 1, c_sale_id = 1, c_amount = 11250,
                      c_date_of_commission = (2023, 4, 10)\<rparr>],
      month_commissions = [\<lparr>mc_id = 1, mc_agent_id = 1, mc_date = (2023, 5, 1),
                            mc_amount = 11250\<rparr>]\<rparr>"

definition seeded_twice_db :: db where
  "seeded_twice_db = seeded_once_db\<lparr>month_commissions :=
     [\<lparr>mc_id = 1, mc_agent_id = 1, mc_date = (2023, 5, 1), mc_amount = 11250\<rparr>,
      \<lparr>mc_id = 2, mc_agent_id = 1, mc_date = (2023, 5, 1), mc_amount = 11250\<rparr>]\<rparr>"

section \<open>Sale recording\<close>

lemma next_id_greater: "i \<in> set ids \<Longrightarrow> i < next_id ids"
proof -
  assume a: "i \<in> set ids"
  then have "ids \<noteq> []" by auto
  moreover from a have "i \<le> Max (set ids)" by simp
  ultimately show ?thesis by (simp add: next_id_def)
qed

lemma last_id_append_next: "last_id (ids @ [next_id ids]) = Some (next_id ids)"
proof -
  have "Max (set (ids @ [next_id ids])) = next_id ids"
  proof (rule Max_eqI)
    show "finite (set (ids @ [next_id ids]))" by simp
    show "next_id ids \<in> set (ids @ [next_id ids])" by simp
    fix y assume "y \<in> set (ids @ [next_id ids])"
    then show "y \<le> next_id ids" using next_id_greater [of y ids] by auto
  qed
  then show ?thesis by (simp add: last_id_def)
qed

lemma sales_loop_step:
  "sales_loop fk bs idx (l # rest) s =
     (if length bs \<le> idx then Inl IndexError
      else case fake_date_between fk idx (l_date_of_listing l) of
             Inl e \<Rightarrow> Inl e
           | Inr d \<Rightarrow>
               sales_loop fk bs (Suc idx) rest
                 (s\<lparr>sales := sales s @
                      [\<lparr>sl_id = next_id (map sl_id (sales s)), sl_buyer_id = b_id (bs ! idx),
                        sl_sale_price = l_listing_price l, sl_date_of_sale = d,
                        sl_selling_agent_id = l_listing_agent_id l, sl_office_id = l_office_id l,
                        sl_listing_id = l_id l\<rparr>],
                    listings := map (mark_sold {l_id l}) (listings s),
                    commissions := commissions s @
                      [\<lparr>c_id = next_id (map c_id (commissions s)),
                        c_agent_id = l_listing_agent_id l,
                        c_sale_id = next_id (map sl_id (sales s)),
                        c_amount = l_listing_price l * get_commission_rate (l_listing_price l),
                        c_date_of_commission = d\<rparr>]\<rparr>))"
  by (simp add: Let_def last_id_append_next mark_sold_def [abs_def] split: sum.splits)

lemma sales_loop_effect:
  "sales_loop fk bs idx ls s = Inr s' \<Longrightarrow>
   \<exists>ns nc. sales s' = sales s @ ns \<and> commissions s' = commissions s @ nc \<and>
     map sale_commission ns = map commission_fields nc \<and>
     map (\<lambda>x. (sl_listing_id x, sl_sale_price x)) ns = map (\<lambda>l. (l_id l, l_listing_price l)) ls \<and>
     (\<forall>x\<in>set ns. \<forall>y\<in>set (sales s). sl_id y < sl_id x) \<and>
     distinct (map sl_id ns) \<and>
     listings s' = map (mark_sold (l_id ` set ls)) (listings s) \<and>
     buyers s' = buyers s \<and> month_commissions s' = month_commissions s"
proof (induction ls arbitrary: s idx)
  case Nil
  then show ?case by (simp add: mark_sold_def)
next
  case (Cons l rest)
  from Cons.prems have len: "\<not> length bs \<le> idx"
    by (auto simp only: sales_loop_step split: if_splits)
  with Cons.prems obtain d where d: "fake_date_between fk idx (l_date_of_listing l) = Inr d"
    by (auto simp only: sales_loop_step split: if_splits sum.splits)
  let ?sale = "\<lparr>sl_id = next_id (map sl_id (sales s)), sl_buyer_id = b_id (bs ! idx),
                        sl_sale_price = l_listing_price l, sl_date_of_sale = d,
                        sl_selling_agent_id = l_listing_agent_id l, sl_office_id = l_office_id l,
                        sl_listing_id = l_id l\<rparr>"
  let ?com = "\<lparr>c_id = next_id (map c_id (commissions s)),
                        c_agent_id = l_listing_agent_id l,
                        c_sale_id = next_id (map sl_id (sales s)),
                        c_amount = l_listing_price l * get_commission_rate (l_listing_price l),
                        c_date_of_commission = d\<rparr>"
  let ?s3 = "s\<lparr>sales := sales s @ [?sale], listings := map (mark_sold {l_id l}) (listings s),
               commissions := commissions s @ [?com]\<rparr>"
  from Cons.prems len d have run: "sales_loop fk bs (Suc idx) rest ?s3 = Inr s'"
    by (simp only: sales_loop_step if_False sum.case)
  from Cons.IH [OF run] obtain ns nc where
    S: "sales s' = sales ?s3 @ ns" and C: "commissions s' = commissions ?s3 @ nc" and
    M: "map sale_commission ns = map commission_fields nc" and
    P: "map (\<lambda>x. (sl_listing_id x, sl_sale_price x)) ns = map (\<lambda>l. (l_id l, l_listing_price l)) rest" and
    G: "\<forall>x\<in>set ns. \<forall>y\<in>set (sales ?s3). sl_id y < sl_id x" and
    D: "distinct (map sl_id ns)" and
    L: "listings s' = map (mark_sold (l_id ` set rest)) (listings ?s3)" and
    B: "buyers s' = buyers ?s3" and MC: "month_commissions s' = month_commissions ?s3"
    by blast
  have 1: "sales s' = sales s @ (?sale # ns)" using S by simp
  have 2: "commissions s' = commissions s @ (?com # nc)" using C by simp
  have 3: "map sale_commission (?sale # ns) = map commission_fields (?com # nc)"
    using M by (simp add: sale_commission_def commission_fields_def)
  have 4: "map (\<lambda>x. (sl_listing_id x, sl_sale_price x)) (?sale # ns) =
           map (\<lambda>l. (l_id l, l_listing_price l)) (l # rest)"
    using P by simp
  have G1: "\<forall>x\<in>set ns. sl_id ?sale < sl_id x" using G by simp
  have G2: "\<forall>x\<in>set ns. \<forall>y\<in>set (sales s). sl_id y < sl_id x" using G by simp
  have 5: "\<forall>x\<in>set (?sale # ns). \<forall>y\<in>set (sales s). sl_id y < sl_id x"
    using G2 next_id_greater [of _ "map sl_id (sales s)"] by auto
  have 6: "distinct (map sl_id (?sale # ns))"
    using D G1 by (auto simp del: sale.simps)
  have mm: "mark_sold (l_id ` set rest) \<circ> mark_sold {l_id l} = mark_sold (l_id ` set (l # rest))"
    by (rule ext) (simp add: mark_sold_def)
  have 7: "listings s' = map (mark_sold (l_id ` set (l # rest))) (listings s)"
    using L by (simp add: mm del: set_simps image_insert)
  have 8: "buyers s' = buyers s" using B by simp
  have 9: "month_commissions s' = month_commissions s" using MC by simp
  from 1 2 3 4 5 6 7 8 9 show ?case by blast
qed

lemma add_all_buyers_frame:
  "add_all_buyers fk is s = s\<lparr>buyers := buyers (add_all_buyers fk is s)\<rparr>"
proof (induction "is" arbitrary: s)
  case Nil
  show ?case by simp
next
  case (Cons i rest)
  let ?s1 = "s\<lparr>buyers := buyers s @
          [\<lparr>b_id = next_id (map b_id (buyers s)), b_name = fake_name fk i,
            b_phone = fake_phone_number fk i\<rparr>]\<rparr>"
  have "add_all_buyers fk rest ?s1 = ?s1\<lparr>buyers := buyers (add_all_buyers fk rest ?s1)\<rparr>"
    by (rule Cons.IH)
  then show ?case by simp
qed

lemma add_all_buyers_length:
  "length (buyers (add_all_buyers fk is s)) = length (buyers s) + length is"
  by (induction "is" arbitrary: s) auto

lemma mark_sold_empty: "map (mark_sold {}) ls = ls"
  by (induction ls) (simp_all add: mark_sold_def)

lemma set_limit: "set (limit n xs) \<subseteq> set xs"
  by (auto simp: limit_def dest: in_set_takeD)

lemma insert_sales_effect:
  assumes "insert_sales fk n s = (out, s')"
  shows "\<exists>ns nc. sales s' = sales s @ ns \<and> commissions s' = commissions s @ nc \<and>
     map sale_commission ns = map commission_fields nc \<and>
     distinct (map sl_id ns) \<and>
     (\<forall>x\<in>set ns. \<exists>l\<in>set (listings s). l_is_sold l = 0 \<and> l_id l = sl_listing_id x \<and>
                     l_listing_price l = sl_sale_price x) \<and>
     listings s' = map (mark_sold (sl_listing_id ` set ns)) (listings s) \<and>
     length (buyers s') = length (buyers s) + nat n \<and>
     month_commissions s' = month_commissions s"
proof -
  let ?s1 = "add_all_buyers fk [0..<nat n] s"
  let ?bs = "drop (length (buyers s)) (buyers ?s1)"
  let ?ls = "limit n (filter (\<lambda>l. l_is_sold l = 0) (listings ?s1))"
  have fr: "?s1 = s\<lparr>buyers := buyers ?s1\<rparr>" by (rule add_all_buyers_frame)
  have f1: "sales ?s1 = sales s" "commissions ?s1 = commissions s" "listings ?s1 = listings s"
    "month_commissions ?s1 = month_commissions s"
    by (subst fr, simp)+
  have bl: "length (buyers ?s1) = length (buyers s) + nat n"
    by (simp add: add_all_buyers_length)
  show ?thesis
  proof (cases "sales_loop fk ?bs 0 ?ls ?s1")
    case (Inl e)
    with assms have "s' = ?s1" by (simp add: insert_sales_def Let_def)
    then have "sales s' = sales s @ [] \<and> commissions s' = commissions s @ [] \<and>
       map sale_commission [] = map commission_fields [] \<and> distinct (map sl_id []) \<and>
       (\<forall>x\<in>set []. \<exists>l\<in>set (listings s). l_is_sold l = 0 \<and> l_id l = sl_listing_id x \<and>
                     l_listing_price l = sl_sale_price x) \<and>
       listings s' = map (mark_sold (sl_listing_id ` set [])) (listings s) \<and>
       length (buyers s') = length (buyers s) + nat n \<and>
       month_commissions s' = month_commissions s"
      using f1 bl by (simp add: mark_sold_empty)
    then show ?thesis by blast
  next
    case (Inr s2)
    with assms have s': "s' = s2" by (simp add: insert_sales_def Let_def)
    from sales_loop_effect [OF Inr] obtain ns nc where
      S: "sales s2 = sales ?s1 @ ns" and C: "commissions s2 = commissions ?s1 @ nc" and
      M: "map sale_commission ns = map commission_fields nc" and
      P: "map (\<lambda>x. (sl_listing_id x, sl_sale_price x)) ns = map (\<lambda>l. (l_id l, l_listing_price l)) ?ls" and
      D: "distinct (map sl_id ns)" and
      L: "listings s2 = map (mark_sold (l_id ` set ?ls)) (listings ?s1)" and
      B: "buyers s2 = buyers ?s1" and MC: "month_commissions s2 = month_commissions ?s1"
      by blast
    have sub: "set ?ls \<subseteq> {l \<in> set (listings s). l_is_sold l = 0}"
      using set_limit [of n "filter (\<lambda>l. l_is_sold l = 0) (listings ?s1)"] by (auto simp: f1)
    have "set (map (\<lambda>x. (sl_listing_id x, sl_sale_price x)) ns) =
          set (map (\<lambda>l. (l_id l, l_listing_price l)) ?ls)"
      using P by (rule arg_cong)
    then have setP: "(\<lambda>x. (sl_listing_id x, sl_sale_price x)) ` set ns = (\<lambda>l. (l_id l, l_listing_price l)) ` set ?ls"
      by (simp only: set_map)
    have Q: "\<forall>x\<in>set ns. \<exists>l\<in>set (listings s). l_is_sold l = 0 \<and> l_id l = sl_listing_id x \<and>
                     l_listing_price l = sl_sale_price x"
    proof
      fix x assume "x \<in> set ns"
      then have "(sl_listing_id x, sl_sale_price x) \<in> (\<lambda>l. (l_id l, l_listing_price l)) ` set ?ls"
        using setP by blast
      then obtain l where "l \<in> set ?ls" "l_id l = sl_listing_id x" "l_listing_price l = sl_sale_price x"
        by auto
      with sub show "\<exists>l\<in>set (listings s). l_is_sold l = 0 \<and> l_id l = sl_listing_id x \<and>
                     l_listing_price l = sl_sale_price x" by blast
    qed
    have "map fst (map (\<lambda>x. (sl_listing_id x, sl_sale_price x)) ns) =
          map fst (map (\<lambda>l. (l_id l, l_listing_price l)) ?ls)"
      using P by (rule arg_cong)
    then have "map sl_listing_id ns = map l_id ?ls" by (simp add: comp_def)
    then have "set (map sl_listing_id ns) = set (map l_id ?ls)" by (rule arg_cong)
    then have ids: "sl_listing_id ` set ns = l_id ` set ?ls" by (simp only: set_map)
    have "sales s' = sales s @ ns \<and> commissions s' = commissions s @ nc \<and>
       map sale_commission ns = map commission_fields nc \<and> distinct (map sl_id ns) \<and>
       (\<forall>x\<in>set ns. \<exists>l\<in>set (listings s). l_is_sold l = 0 \<and> l_id l = sl_listing_id x \<and>
                     l_listing_price l = sl_sale_price x) \<and>
       listings s' = map (mark_sold (sl_listing_id ` set ns)) (listings s) \<and>
       length (buyers s') = length (buyers s) + nat n \<and>
       month_commissions s' = month_commissions s"
      using S C M D Q L B MC bl unfolding s' ids f1 by simp
    then show ?thesis by blast
  qed
qed

section \<open>Text comparison and sorters\<close>

lemma in_window_iff: "in_window start_date end_date d \<longleftrightarrow> start_date < d \<and> d \<le> end_date"
  by (auto simp: in_window_def date_text_def datetime_text_def)

lemma date_text_never_datetime_text: "date_text d \<noteq> datetime_text e"
  by (simp add: date_text_def datetime_text_def)

lemma sorter_ok_sort_desc: "sorter_ok sort_desc"
proof -
  have "sorted_wrt (\<lambda>a b. f b \<le> f a) (rev (sort_key f xs))" for f :: "'a \<Rightarrow> 'b" and xs
  proof -
    have "sorted (map f (sort_key f xs))" by (rule sorted_sort_key)
    then have "sorted_wrt (\<lambda>a b. f a \<le> f b) (sort_key f xs)" by (simp only: sorted_map)
    then show ?thesis by (simp add: sorted_wrt_rev)
  qed
  then show ?thesis by (simp add: sorter_ok_def sort_desc_def)
qed

lemma sorter_single:
  assumes "sorter_ok order_by"
  shows "order_by f [x] = [x]"
proof -
  from assms have "mset (order_by f [x]) = mset [x]" by (simp add: sorter_ok_def)
  then show ?thesis by simp
qed

lemma sorter_pair:
  assumes ok: "sorter_ok order_by" and less: "f y < f x"
  shows "order_by f [x, y] = [x, y]"
proof -
  from ok have m: "mset (order_by f [x, y]) = mset [x, y]"
    and s: "sorted_wrt (\<lambda>a b. f b \<le> f a) (order_by f [x, y])"
    by (simp_all add: sorter_ok_def)
  from m have "length (order_by f [x, y]) = length [x, y]" by (rule mset_eq_length)
  then obtain a b where ab: "order_by f [x, y] = [a, b]"
    by (cases "order_by f [x, y]"; cases "tl (order_by f [x, y])") auto
  from m ab have "{#a, b#} = {#x, y#}" by simp
  then have "a = x \<and> b = y \<or> a = y \<and> b = x"
    by (auto simp: add_eq_conv_ex)
  moreover from s ab have "f b \<le> f a" by simp
  ultimately show ?thesis using less ab by auto
qed

lemma window_april_2023: "month_window 2023 4 = Inr ((2023, 4, 1), (2023, 5, 1))"
  by (simp add: month_window_def datetime_def days_in_month_def)

lemma window_june_2023: "month_window 2023 6 = Inr ((2023, 6, 1), (2023, 7, 1))"
  by (simp add: month_window_def datetime_def days_in_month_def)

section \<open>The monthly rollup on example data\<close>

lemma agents_commission_april_db:
  assumes "sorter_ok order_by"
  shows "agents_commission order_by (2023, 4, 1) (2023, 5, 1) april_db = [(1, 19250), (2, 500)]"
proof -
  have rows: "map (\<lambda>(k, rows). (k, sum_list (map (\<lambda>(a, c). c_amount c) rows)))
          (group_by (\<lambda>(a, c). a_id a)
             (filter (\<lambda>(a, c). in_window (2023, 4, 1) (2023, 5, 1) (c_date_of_commission c))
                (join_on (\<lambda>a c. c_agent_id c = a_id a) (agents april_db) (commissions april_db)))) =
        [(1, 19250), (2, 500 :: real)]"
    by (simp add: join_on_def group_by_def in_window_iff april_db_def empty_db_def
        agent_a_def agent_b_def)
  show ?thesis unfolding agents_commission_def rows
    by (rule sorter_pair [OF assms]) simp
qed

lemma rollup_april_2023:
  "get_total_commission order_by 2023 4 s =
     Inr (add_monthly_commissions (2023, 5, 1)
            (agents_commission order_by (2023, 4, 1) (2023, 5, 1) s) s)"
  by (simp add: get_total_commission_def window_april_2023)

lemma rollup_april_db:
  assumes "sorter_ok order_by"
  shows "get_total_commission order_by 2023 4 april_db = Inr april_once_db"
  unfolding rollup_april_2023 agents_commission_april_db [OF assms]
  by (simp add: date_text_never_datetime_text next_id_def april_once_db_def april_db_def
      empty_db_def)

lemma rollup_april_once_db:
  assumes "sorter_ok order_by"
  shows "get_total_commission order_by 2023 4 april_once_db = Inr april_twice_db"
proof -
  have "agents_commission order_by (2023, 4, 1) (2023, 5, 1) april_once_db =
        agents_commission order_by (2023, 4, 1) (2023, 5, 1) april_db"
    by (simp add: agents_commission_def april_once_db_def)
  then have q: "agents_commission order_by (2023, 4, 1) (2023, 5, 1) april_once_db =
        [(1, 19250), (2, 500)]"
    by (simp only: agents_commission_april_db [OF assms])
  show ?thesis
    unfolding rollup_april_2023 q
    by (simp add: date_text_never_datetime_text next_id_def april_once_db_def
        april_twice_db_def april_db_def empty_db_def)
qed

lemma sorter_nil:
  assumes "sorter_ok order_by"
  shows "order_by f [] = []"
proof -
  from assms have "mset (order_by f []) = mset []" by (simp add: sorter_ok_def)
  then show ?thesis by simp
qed

lemma rollup_first_day_db:
  assumes "sorter_ok order_by"
  shows "get_total_commission order_by 2023 4 first_day_db = Inr first_day_db"
proof -
  have "filter (\<lambda>(a, c). in_window (2023, 4, 1) (2023, 5, 1) (c_date_of_commission c))
          (join_on (\<lambda>a c. c_agent_id c = a_id a) (agents first_day_db) (commissions first_day_db)) = []"
    by (simp add: join_on_def in_window_iff first_day_db_def empty_db_def agent_a_def)
  then have "agents_commission order_by (2023, 4, 1) (2023, 5, 1) first_day_db = []"
    by (simp add: agents_commission_def group_by_def sorter_nil [OF assms])
  then show ?thesis
    by (simp add: rollup_april_2023)
qed

section \<open>Properties of the monthly rollup\<close>

text \<open>
  Claim C1 (the rollup sums, per agent, the commissions dated in the half-open window
  [first day of the month, first day of the following month) and inserts one row for
  each agent that has one). The code departs from it at the bounds of the window,
  because it compares the stored date text with the text of a datetime. In \<open>april_db\<close>
  agent B's only commission is dated 2023-05-01, outside [2023-04-01, 2023-05-01), yet
  the rollup of April 2023 inserts a row (B, 2023-05-01, 500) beside the row
  (A, 2023-05-01, 19250). In \<open>first_day_db\<close> agent A has a commission dated 2023-04-01,
  inside the window, yet the rollup of April 2023 inserts nothing. This holds with any
  sorter that orders as SQL promises.
\<close>

theorem get_total_commission_window_divergence:
  assumes "sorter_ok order_by"
  shows "map (\<lambda>c. (c_agent_id c, c_date_of_commission c, c_amount c)) (commissions april_db) =
           [(1, (2023, 4, 10), 11250), (1, (2023, 4, 30), 8000), (2, (2023, 5, 1), 500)] \<and>
         month_commissions april_db = [] \<and>
         get_total_commission order_by 2023 4 april_db = Inr april_once_db \<and>
         map (\<lambda>mc. (mc_agent_id mc, mc_date mc, mc_amount mc)) (month_commissions april_once_db) =
           [(1, (2023, 5, 1), 19250), (2, (2023, 5, 1), 500)] \<and>
         map (\<lambda>c. (c_agent_id c, c_date_of_commission c, c_amount c)) (commissions first_day_db) =
           [(1, (2023, 4, 1), 11250)] \<and>
         get_total_commission order_by 2023 4 first_day_db = Inr first_day_db \<and>
         month_commissions first_day_db = []"
  using rollup_april_db [OF assms] rollup_first_day_db [OF assms]
  by (simp add: april_db_def april_once_db_def first_day_db_def empty_db_def)

theorem get_total_commission_window_divergence_witness:
  "sorter_ok (sort_desc :: (int \<times> real \<Rightarrow> real) \<Rightarrow> (int \<times> real) list \<Rightarrow> (int \<times> real) list) \<and>
   get_total_commission sort_desc 2023 4 april_db = Inr april_once_db \<and>
   map (\<lambda>mc. (mc_agent_id mc, mc_date mc, mc_amount mc)) (month_commissions april_once_db) =
     [(1, (2023, 5, 1), 19250), (2, (2023, 5, 1), 500)] \<and>
   get_total_commission sort_desc 2023 4 first_day_db = Inr first_day_db"
  using get_total_commission_window_divergence [OF sorter_ok_sort_desc] sorter_ok_sort_desc
  by simp

text \<open>
  Claim C2 (a second rollup of the same month leaves the monthly table as the first one
  left it). The code departs from it: the existence check compares the stored date text
  with the text of the datetime \<^verbatim>\<open>end_date\<close>, which never match, so no iteration skips.
  On \<open>april_db\<close> the first rollup of April 2023 stores two rows and the second one
  stores the same two rows again: four rows, two of them for each (agent, date) pair.
\<close>

theorem get_total_commission_twice_divergence:
  assumes "sorter_ok order_by"
  shows "get_total_commission order_by 2023 4 april_db = Inr april_once_db \<and>
         get_total_commission order_by 2023 4 april_once_db = Inr april_twice_db \<and>
         map (\<lambda>mc. (mc_agent_id mc, mc_date mc, mc_amount mc)) (month_commissions april_once_db) =
           [(1, (2023, 5, 1), 19250), (2, (2023, 5, 1), 500)] \<and>
         map (\<lambda>mc. (mc_agent_id mc, mc_date mc, mc_amount mc)) (month_commissions april_twice_db) =
           [(1, (2023, 5, 1), 19250), (2, (2023, 5, 1), 500),
            (1, (2023, 5, 1), 19250), (2, (2023, 5, 1), 500)]"
  using rollup_april_db [OF assms] rollup_april_once_db [OF assms]
  by (simp add: april_once_db_def april_twice_db_def)

theorem get_total_commission_twice_divergence_witness:
  "sorter_ok (sort_desc :: (int \<times> real \<Rightarrow> real) \<Rightarrow> (int \<times> real) list \<Rightarrow> (int \<times> real) list) \<and>
   get_total_commission sort_desc 2023 4 april_db = Inr april_once_db \<and>
   get_total_commission sort_desc 2023 4 april_once_db = Inr april_twice_db \<and>
   length (month_commissions april_once_db) = 2 \<and>
   length (month_commissions april_twice_db) = 4"
  using get_total_commission_twice_divergence [OF sorter_ok_sort_desc] sorter_ok_sort_desc
  by (simp add: april_once_db_def april_twice_db_def)

section \<open>Properties of sale recording\<close>

lemma filter_key_distinct:
  "distinct (map f q) \<Longrightarrow> y \<in> set q \<Longrightarrow> filter (\<lambda>x. f x = f y) q = [y]"
proof (induction q)
  case Nil
  then show ?case by simp
next
  case (Cons x q)
  show ?case
  proof (cases "x = y")
    case True
    with Cons.prems have "f y \<notin> f ` set q" by auto
    then have "filter (\<lambda>x. f x = f y) q = []"
      by (simp add: filter_empty_conv) (metis imageI)
    with True show ?thesis by simp
  next
    case False
    with Cons.prems have in_q: "y \<in> set q" and d: "distinct (map f q)" by auto
    then have "f x \<noteq> f y" using Cons.prems by (auto simp: image_iff)
    with Cons.IH [OF d in_q] show ?thesis by simp
  qed
qed


lemma insert_sales_new_rows:
  assumes "insert_sales fk n s = (out, s')"
  shows "sales s' = sales s @ new_sales s s' \<and>
     commissions s' = commissions s @ new_commissions s s' \<and>
     map sale_commission (new_sales s s') = map commission_fields (new_commissions s s') \<and>
     distinct (map sl_id (new_sales s s')) \<and>
     (\<forall>x\<in>set (new_sales s s'). \<exists>l\<in>set (listings s). l_is_sold l = 0 \<and>
         l_id l = sl_listing_id x \<and> l_listing_price l = sl_sale_price x) \<and>
     listings s' = map (mark_sold (sl_listing_id ` set (new_sales s s'))) (listings s) \<and>
     length (buyers s') = length (buyers s) + nat n \<and>
     month_commissions s' = month_commissions s"
proof -
  from insert_sales_effect [OF assms] obtain ns nc where
    E: "sales s' = sales s @ ns \<and> commissions s' = commissions s @ nc \<and>
     map sale_commission ns = map commission_fields nc \<and>
     distinct (map sl_id ns) \<and>
     (\<forall>x\<in>set ns. \<exists>l\<in>set (listings s). l_is_sold l = 0 \<and> l_id l = sl_listing_id x \<and>
                     l_listing_price l = sl_sale_price x) \<and>
     listings s' = map (mark_sold (sl_listing_id ` set ns)) (listings s) \<and>
     length (buyers s') = length (buyers s) + nat n \<and>
     month_commissions s' = month_commissions s"
    by blast
  then have "new_sales s s' = ns" "new_commissions s s' = nc"
    by (simp_all add: new_sales_def new_commissions_def)
  with E show ?thesis by simp
qed

lemma commission_of_sale:
  assumes M: "map sale_commission ns = map commission_fields nc"
      and D: "distinct (map sl_id ns)"
      and x: "x \<in> set ns"
  shows "\<exists>c. filter (\<lambda>c. c_sale_id c = sl_id x) nc = [c] \<and> commission_fields c = sale_commission x"
proof -
  have "set (map sale_commission ns) = set (map commission_fields nc)"
    using M by (rule arg_cong)
  with x have "sale_commission x \<in> commission_fields ` set nc" by auto
  then obtain c where c: "c \<in> set nc" and cx: "commission_fields c = sale_commission x"
    by auto
  have "map (fst \<circ> snd) (map sale_commission ns) = map (fst \<circ> snd) (map commission_fields nc)"
    using M by (rule arg_cong)
  then have "map sl_id ns = map c_sale_id nc"
    by (simp add: sale_commission_def commission_fields_def comp_def)
  with D have "distinct (map c_sale_id nc)" by simp
  from filter_key_distinct [OF this c]
  have "filter (\<lambda>y. c_sale_id y = c_sale_id c) nc = [c]" .
  moreover from cx have "c_sale_id c = sl_id x"
    by (simp add: sale_commission_def commission_fields_def)
  ultimately show ?thesis using cx by auto
qed

text \<open>
  Claim C5. Whatever the draws, the number of sales asked for and the starting state,
  \<^verbatim>\<open>insert_sales\<close> appends the new sales and the new commissions to their tables, as
  many commissions as sales. Every new sale has the price of a stored listing it refers
  to, and among the new commissions exactly one refers to the sale; its amount is the
  sale price times the rate of the sale price, its date is the date of the sale and its
  agent the selling agent.
\<close>

theorem insert_sales_commission:
  assumes "insert_sales fk num_sales s = (out, s')"
  shows "sales s' = sales s @ new_sales s s' \<and>
     commissions s' = commissions s @ new_commissions s s' \<and>
     length (new_commissions s s') = length (new_sales s s') \<and>
     (\<forall>x\<in>set (new_sales s s').
        (\<exists>l\<in>set (listings s). l_id l = sl_listing_id x \<and> sl_sale_price x = l_listing_price l) \<and>
        (\<exists>c. filter (\<lambda>c. c_sale_id c = sl_id x) (new_commissions s s') = [c] \<and>
             c_amount c = sl_sale_price x * get_commission_rate (sl_sale_price x) \<and>
             c_date_of_commission c = sl_date_of_sale x \<and>
             c_agent_id c = sl_selling_agent_id x))"
proof -
  note R = insert_sales_new_rows [OF assms]
  from R have M: "map sale_commission (new_sales s s') =
                  map commission_fields (new_commissions s s')"
    and D: "distinct (map sl_id (new_sales s s'))" by simp_all
  have "length (map sale_commission (new_sales s s')) =
        length (map commission_fields (new_commissions s s'))"
    using M by (rule arg_cong)
  then have len: "length (new_commissions s s') = length (new_sales s s')" by simp
  have each: "(\<exists>l\<in>set (listings s). l_id l = sl_listing_id x \<and> sl_sale_price x = l_listing_price l) \<and>
        (\<exists>c. filter (\<lambda>c. c_sale_id c = sl_id x) (new_commissions s s') = [c] \<and>
             c_amount c = sl_sale_price x * get_commission_rate (sl_sale_price x) \<and>
             c_date_of_commission c = sl_date_of_sale x \<and>
             c_agent_id c = sl_selling_agent_id x)"
    if x: "x \<in> set (new_sales s s')" for x
  proof
    from R x show "\<exists>l\<in>set (listings s). l_id l = sl_listing_id x \<and> sl_sale_price x = l_listing_price l"
      by force
    from commission_of_sale [OF M D x] obtain c where
      "filter (\<lambda>c. c_sale_id c = sl_id x) (new_commissions s s') = [c]"
      "commission_fields c = sale_commission x" by blast
    then show "\<exists>c. filter (\<lambda>c. c_sale_id c = sl_id x) (new_commissions s s') = [c] \<and>
             c_amount c = sl_sale_price x * get_commission_rate (sl_sale_price x) \<and>
             c_date_of_commission c = sl_date_of_sale x \<and>
             c_agent_id c = sl_selling_agent_id x"
      by (auto simp: sale_commission_def commission_fields_def)
  qed
  from R len each show ?thesis by blast
qed

lemma insert_sales_listed_db: "insert_sales fk0 1 listed_db = (None, listed_sold_db)"
  by (simp add: insert_sales_def Let_def limit_def next_id_def last_id_def
      get_commission_rate_def fk0_def listed_db_def listed_sold_db_def empty_db_def
      listing_150k_def sold_listing_def)

theorem insert_sales_commission_witness:
  "insert_sales fk0 1 listed_db = (None, listed_sold_db) \<and>
   map sl_sale_price (new_sales listed_db listed_sold_db) = [150000] \<and>
   map l_listing_price (listings listed_db) = [150000, 90000] \<and>
   get_commission_rate 150000 = 0.075 \<and>
   map c_amount (new_commissions listed_db listed_sold_db) = [11250] \<and>
   map c_date_of_commission (new_commissions listed_db listed_sold_db) = [(2023, 4, 10)] \<and>
   map sl_date_of_sale (new_sales listed_db listed_sold_db) = [(2023, 4, 10)]"
  using insert_sales_commission [OF insert_sales_listed_db] insert_sales_listed_db
  by (simp add: new_sales_def new_commissions_def get_commission_rate_def
      listed_db_def listed_sold_db_def empty_db_def listing_150k_def sold_listing_def)




section \<open>Properties of the report queries\<close>

text \<open>
  Claim C7 (both averages return None for a window that holds no sale). The code
  departs from it at the end of the window: it compares the stored date text with the
  text of a datetime, so a sale dated the first day of the following month passes the
  filter. In \<open>july_first_db\<close> the only sale is dated 2023-07-01, so June 2023, the window
  [2023-06-01, 2023-07-01), holds no sale; yet the average selling price of June 2023
  is 150000, not None, and the average of the days on market is that sale's.
\<close>

theorem averages_boundary_divergence:
  "map sl_date_of_sale (sales july_first_db) = [(2023, 7, 1)] \<and>
   month_window 2023 6 = Inr ((2023, 6, 1), (2023, 7, 1)) \<and>
   average_selling_price_monthly 2023 6 july_first_db = Inr (Some 150000) \<and>
   average_days_on_market_monthly julianday 2023 6 july_first_db =
     Inr (Some (julianday (2023, 7, 1) - julianday (2023, 3, 1)))"
  by (simp add: average_selling_price_monthly_def average_days_on_market_monthly_def
      window_june_2023 sql_avg_def join_on_def in_window_iff
      july_first_db_def empty_db_def sale_of_def listing_150k_def)

lemma top_agents_boundary_sales_db:
  assumes "sorter_ok order_by"
  shows "top_agents_by_sales_monthly order_by 2023 4 boundary_sales_db =
           Inr [(2, ''B'', ''b@example.org'', ''555-0002'', 1)]"
proof -
  have rows: "map (\<lambda>(k, rows). (k, a_name (fst (hd rows)), a_email (fst (hd rows)),
                                  a_phone (fst (hd rows)), int (length rows)))
          (group_by (\<lambda>(a, x). a_id a)
             (filter (\<lambda>(a, x). in_window (2023, 4, 1) (2023, 5, 1) (sl_date_of_sale x))
                (join_on (\<lambda>a x. sl_selling_agent_id x = a_id a)
                   (agents boundary_sales_db) (sales boundary_sales_db)))) =
        [(2, ''B'', ''b@example.org'', ''555-0002'', 1)]"
    by (simp add: join_on_def group_by_def in_window_iff boundary_sales_db_def empty_db_def
        sale_of_def agent_a_def agent_b_def)
  have "top_agents_by_sales_monthly order_by 2023 4 boundary_sales_db =
        Inr (limit 5 (order_by (\<lambda>(k, n, e, p, sales_count). sales_count)
                        [(2, ''B'', ''b@example.org'', ''555-0002'', 1)]))"
    unfolding rows [symmetric]
    by (simp add: top_agents_by_sales_monthly_def window_april_2023)
  then show ?thesis by (simp add: sorter_single [OF assms] limit_def)
qed

text \<open>
  Claim C9 (the agents report holds one row per agent with a sale dated in the window,
  with the agent's count). The code departs from it at the bounds of the window, for
  the same reason as the other monthly queries. In \<open>boundary_sales_db\<close> agent A has a
  sale dated 2023-04-01 and agent B one dated 2023-05-01: the report of April 2023
  should hold the row of A alone, and the code returns the row of B alone. This holds
  with any sorter that orders as SQL promises.
\<close>

theorem top_agents_by_sales_monthly_boundary_divergence:
  assumes "sorter_ok order_by"
  shows "map (\<lambda>x. (sl_selling_agent_id x, sl_date_of_sale x)) (sales boundary_sales_db) =
           [(1, (2023, 4, 1)), (2, (2023, 5, 1))] \<and>
         map a_id (agents boundary_sales_db) = [1, 2] \<and>
         top_agents_by_sales_monthly order_by 2023 4 boundary_sales_db =
           Inr [(2, ''B'', ''b@example.org'', ''555-0002'', 1)]"
  using top_agents_boundary_sales_db [OF assms]
  by (simp add: boundary_sales_db_def empty_db_def sale_of_def agent_a_def agent_b_def)

theorem top_agents_by_sales_monthly_boundary_divergence_witness:
  "sorter_ok (sort_desc :: (agent_row \<Rightarrow> int) \<Rightarrow> agent_row list \<Rightarrow> agent_row list) \<and>
   top_agents_by_sales_monthly sort_desc 2023 4 boundary_sales_db =
     Inr [(2, ''B'', ''b@example.org'', ''555-0002'', 1)]"
  using top_agents_by_sales_monthly_boundary_divergence [OF sorter_ok_sort_desc]
    sorter_ok_sort_desc
  by simp

section \<open>The monthly table in reachable states\<close>

lemma reachable_empty_db: "reachable empty_db"
  by (simp add: reachable_def)

lemma reachable_step: "reachable s \<Longrightarrow> step s s' \<Longrightarrow> reachable s'"
  by (simp add: reachable_def)

lemma reachable_seeded_db: "reachable seeded_db"
proof -
  let ?s1 = "insert_offices fk0 1 empty_db"
  let ?s2 = "insert_agents fk0 1 ?s1"
  let ?s3 = "insert_listings fk0 1 ?s2"
  have "reachable ?s1" by (rule reachable_step [OF reachable_empty_db step_offices])
  then have "reachable ?s2" by (rule reachable_step [OF _ step_agents])
  then have r3: "reachable ?s3" by (rule reachable_step [OF _ step_listings])
  have "insert_sales fk0 1 ?s3 = (fst (insert_sales fk0 1 ?s3), seeded_db)"
    by (simp add: seeded_db_def)
  then have "step ?s3 seeded_db" by (rule step_sales)
  with r3 show ?thesis by (rule reachable_step)
qed

lemma rollup_seeded_db: "get_total_commission sort_desc 2023 4 seeded_db = Inr seeded_once_db"
  by code_simp

lemma rollup_seeded_once_db:
  "get_total_commission sort_desc 2023 4 seeded_once_db = Inr seeded_twice_db"
  by code_simp

text \<open>
  Claim C8 (in every reachable state the monthly table holds at most one row per agent
  and date, kept by the rollup's check before it inserts). The code departs from it:
  the check never finds the stored row, since it compares the stored date text with the
  text of a datetime. \<open>seeded_twice_db\<close> is reached from the empty database by storing
  one office, one agent, one listing and one sale and running the rollup of April 2023
  twice; its monthly table holds two rows for agent 1 and the date 2023-05-01.
\<close>

theorem month_commissions_duplicate_reachable:
  "reachable seeded_twice_db \<and>
   map (\<lambda>mc. (mc_agent_id mc, mc_date mc)) (month_commissions seeded_twice_db) =
     [(1, (2023, 5, 1)), (1, (2023, 5, 1))] \<and>
   \<not> mc_unique (month_commissions seeded_twice_db)"
proof -
  have "step seeded_db seeded_once_db"
    by (rule step_rollup [OF sorter_ok_sort_desc rollup_seeded_db])
  with reachable_seeded_db have "reachable seeded_once_db" by (rule reachable_step)
  moreover have "step seeded_once_db seeded_twice_db"
    by (rule step_rollup [OF sorter_ok_sort_desc rollup_seeded_once_db])
  ultimately have "reachable seeded_twice_db" by (rule reachable_step)
  then show ?thesis
    by (simp add: seeded_twice_db_def seeded_once_db_def mc_unique_def)
qed

section \<open>Properties of the commission rate\<close>

text \<open>
  Claim C3. The rate function takes the eight boundary values of the specification:
  the tiers are tried in order, each with an exclusive upper bound, so a price just
  below a bound keeps the lower tier's rate and the bound itself takes the next one.
\<close>

theorem get_commission_rate_boundaries:
  "get_commission_rate 99999.99 = 0.10 \<and>
   get_commission_rate 100000 = 0.075 \<and>
   get_commission_rate 199999.99 = 0.075 \<and>
   get_commission_rate 200000 = 0.06 \<and>
   get_commission_rate 499999.99 = 0.06 \<and>
   get_commission_rate 500000 = 0.05 \<and>
   get_commission_rate 999999.99 = 0.05 \<and>
   get_commission_rate 1000000 = 0.04"
  by (simp add: get_commission_rate_def)

text \<open>
  Claim C4. For a non-negative price the rate is one of the five tier rates, the rate
  never increases when the price increases, and a negative price gets the rate 0.10 of
  the lowest tier (the function is total: it has a value at every price).
\<close>

theorem get_commission_rate_range_mono:
  "(0 \<le> p \<longrightarrow> get_commission_rate p \<in> {0.10, 0.075, 0.06, 0.05, 0.04}) \<and>
   (0 \<le> p1 \<and> p1 \<le> p2 \<longrightarrow> get_commission_rate p2 \<le> get_commission_rate p1) \<and>
   (q < 0 \<longrightarrow> get_commission_rate q = 0.10)"
  by (simp add: get_commission_rate_def)

theorem get_commission_rate_range_mono_witness:
  "(0::real) \<le> 250000 \<and> get_commission_rate 250000 \<in> {0.10, 0.075, 0.06, 0.05, 0.04} \<and>
   (0::real) \<le> 150000 \<and> (150000::real) \<le> 600000 \<and>
   get_commission_rate 600000 \<le> get_commission_rate 150000 \<and>
   get_commission_rate 600000 = 0.05 \<and> get_commission_rate 150000 = 0.075 \<and>
   (-5::real) < 0 \<and> get_commission_rate (-5) = 0.10"
  using get_commission_rate_range_mono [of 250000 150000 600000 "-5"]
  by (simp add: get_commission_rate_def)

section \<open>Properties of the printing function\<close>

text \<open>
  Claim C10. \<^verbatim>\<open>print_monthly_commission_table\<close> is not total on the months 1 to 12:
  for January, whatever the year and the stored rows, the start date is built with
  month 0 and the call ends in a ValueError instead of a table.
\<close>

theorem print_monthly_commission_table_january:
  "print_monthly_commission_table year 1 session = Inl ValueError"
  by (simp add: print_monthly_commission_table_def datetime_def)

end
